theory Spec2Isabelle
  imports Complex_Main "HOL-Library.Sublist"
begin

section \<open>JavaScript numbers\<close>

text \<open>
  Every numeric value of the program is a JavaScript \<open>number\<close>: an IEEE 754 double.
  A finite double is represented by the real number it denotes; the three values that
  are not finite are constructors of their own. The sign of zero is not represented: the
  only zero the program divides by is a file size, which is \<open>+0\<close>.
\<close>

datatype number = Num real | PosInfinity | NegInfinity | NaN

text \<open>
  The arithmetic operators round the exact result to the nearest double, ties to the
  even significand. \<open>exponent x\<close> is the binary exponent of the binade of \<open>x\<close>, not below
  that of the subnormal numbers; \<open>ulp x\<close> is the distance between neighbouring doubles
  there (the significand has 52 fraction bits).
\<close>

definition round_ties_even :: "real \<Rightarrow> int" where
  "round_ties_even y =
     (let f = \<lfloor>y\<rfloor> in
      if y - of_int f < 1 / 2 then f
      else if 1 / 2 < y - of_int f then f + 1
      else if even f then f else f + 1)"

definition exponent :: "real \<Rightarrow> int" where
  "exponent x = max \<lfloor>log 2 \<bar>x\<bar>\<rfloor> (- 1022)"

definition ulp :: "real \<Rightarrow> real" where
  "ulp x = 2 powi (exponent x - 52)"

definition round_double :: "real \<Rightarrow> real" where
  "round_double x = (if x = 0 then 0 else of_int (round_ties_even (x / ulp x)) * ulp x)"

text \<open>A rounded result beyond the largest double overflows to an infinity.\<close>

definition fl :: "real \<Rightarrow> number" where
  "fl x =
     (let y = round_double x in
      if 2 ^ 1024 \<le> y then PosInfinity
      else if y \<le> - (2 ^ 1024) then NegInfinity
      else Num y)"

fun js_neg :: "number \<Rightarrow> number" where
  "js_neg (Num a) = Num (- a)"
| "js_neg PosInfinity = NegInfinity"
| "js_neg NegInfinity = PosInfinity"
| "js_neg NaN = NaN"

fun js_add :: "number \<Rightarrow> number \<Rightarrow> number" where
  "js_add (Num a) (Num b) = fl (a + b)"
| "js_add NaN _ = NaN"
| "js_add _ NaN = NaN"
| "js_add PosInfinity NegInfinity = NaN"
| "js_add NegInfinity PosInfinity = NaN"
| "js_add PosInfinity _ = PosInfinity"
| "js_add _ PosInfinity = PosInfinity"
| "js_add NegInfinity _ = NegInfinity"
| "js_add _ NegInfinity = NegInfinity"

definition js_sub :: "number \<Rightarrow> number \<Rightarrow> number" where
  "js_sub a b = js_add a (js_neg b)"

fun js_mul :: "number \<Rightarrow> number \<Rightarrow> number" where
  "js_mul (Num a) (Num b) = fl (a * b)"
| "js_mul NaN _ = NaN"
| "js_mul _ NaN = NaN"
| "js_mul PosInfinity (Num b) =
     (if b = 0 then NaN else if 0 < b then PosInfinity else NegInfinity)"
| "js_mul NegInfinity (Num b) =
     (if b = 0 then NaN else if 0 < b then NegInfinity else PosInfinity)"
| "js_mul (Num a) PosInfinity =
     (if a = 0 then NaN else if 0 < a then PosInfinity else NegInfinity)"
| "js_mul (Num a) NegInfinity =
     (if a = 0 then NaN else if 0 < a then NegInfinity else PosInfinity)"
| "js_mul PosInfinity PosInfinity = PosInfinity"
| "js_mul PosInfinity NegInfinity = NegInfinity"
| "js_mul NegInfinity PosInfinity = NegInfinity"
| "js_mul NegInfinity NegInfinity = PosInfinity"

fun js_div :: "number \<Rightarrow> number \<Rightarrow> number" where
  "js_div (Num a) (Num b) =
     (if b = 0 then (if a = 0 then NaN else if 0 < a then PosInfinity else NegInfinity)
      else fl (a / b))"
| "js_div NaN _ = NaN"
| "js_div _ NaN = NaN"
| "js_div (Num a) PosInfinity = Num 0"
| "js_div (Num a) NegInfinity = Num 0"
| "js_div PosInfinity (Num b) = (if 0 \<le> b then PosInfinity else NegInfinity)"
| "js_div NegInfinity (Num b) = (if 0 \<le> b then NegInfinity else PosInfinity)"
| "js_div PosInfinity PosInfinity = NaN"
| "js_div PosInfinity NegInfinity = NaN"
| "js_div NegInfinity PosInfinity = NaN"
| "js_div NegInfinity NegInfinity = NaN"

text \<open>\<^verbatim>\<open>Math.round\<close> rounds to the nearest integer, a tie towards \<open>+\<infinity>\<close>.\<close>

fun Math_round :: "number \<Rightarrow> number" where
  "Math_round (Num x) = Num (of_int \<lfloor>x + 1 / 2\<rfloor>)"
| "Math_round n = n"

section \<open>The application state of \<open>App\<close>\<close>

text \<open>
  \<^verbatim>\<open>types.ts\<close> declares the statistics record and the status enumeration; the component
  \<open>App\<close> holds six pieces of React state (\<^verbatim>\<open>useState\<close>, lines 68 to 73). A browser
  \<open>File\<close> is seen through the three attributes the code reads: its name, its MIME type
  (\<^verbatim>\<open>file.type\<close>) and its size in bytes (\<^verbatim>\<open>file.size\<close>, an unsigned integer, read as
  a number; every size below \<open>2^53\<close> is a double). \<open>null\<close> is \<open>None\<close>.
\<close>

datatype AppStatus = Idle | ImageLoaded | Compressing | Done

record CompressionStats =
  originalSize :: number
  compressedSize :: number
  reductionPercentage :: number
  psnr :: number
  mse :: number

record File =
  name :: string
  ftype :: string
  fsize :: nat

record App =
  status :: AppStatus
  originalFile :: "File option"
  originalImageUrl :: "string option"
  compressedImageUrl :: "string option"
  stats :: "CompressionStats option"
  error :: "string option"

definition initial :: App where
  "initial =
     \<lparr>status = Idle, originalFile = None, originalImageUrl = None,
      compressedImageUrl = None, stats = None, error = None\<rparr>"

section \<open>The browser\<close>

text \<open>
  What the handlers ask of the browser is a parameter of the model. An off-screen canvas
  is its two dimensions and the images drawn on it, each with the source it was loaded
  from and its offset. The record \<open>Browser\<close> answers each request:
  \<^item> \<open>createObjectURL\<close>: the URL made for a file;
  \<^item> \<open>decode\<close>: what assigning a URL to \<^verbatim>\<open>image.src\<close> leads to, the width and height of
    the decoded image (\<^verbatim>\<open>onload\<close> fires) or \<open>None\<close> (\<^verbatim>\<open>onerror\<close> fires);
  \<^item> \<open>context2d\<close>: whether \<^verbatim>\<open>canvas.getContext('2d')\<close> returns a context;
  \<^item> \<open>toDataURL\<close>: the data URL of a canvas for a MIME type and a quality;
  \<^item> \<open>random\<close>: the value of the \<open>n\<close>-th call of \<^verbatim>\<open>Math.random()\<close> made by a handler.
  The requests a handler makes are also logged, in the order it makes them.
\<close>

record Canvas =
  width :: nat
  height :: nat
  drawn :: "(string \<times> int \<times> int) list"

record Browser =
  createObjectURL :: "File \<Rightarrow> string"
  decode :: "string \<Rightarrow> (nat \<times> nat) option"
  context2d :: bool
  toDataURL :: "Canvas \<Rightarrow> string \<Rightarrow> real \<Rightarrow> string"
  random :: "nat \<Rightarrow> real"

datatype effect =
    SetTimeout nat
  | ImageSrc string
  | CreateCanvas nat nat
  | GetContext string
  | DrawImage string int int
  | ToDataURL string real
  | MathRandom
  | RevokeObjectURL string

section \<open>Selecting a file\<close>

text \<open>
  \<^verbatim>\<open>handleImageSelect\<close> (lines 84 to 95). The two handlers of \<open>ImageUploader\<close> pass it the
  first file of the picker's or of the drop's file list, when there is one; the drop
  handler also ends the dragging highlight.
\<close>

definition handleImageSelect :: "Browser \<Rightarrow> File \<Rightarrow> App \<Rightarrow> App" where
  "handleImageSelect env file st =
     (if \<not> prefix ''image/'' (ftype file)
      then st\<lparr>error := Some ''Please select a valid image file (JPEG or PNG).''\<rparr>
      else st\<lparr>error := None,
              originalFile := Some file,
              originalImageUrl := Some (createObjectURL env file),
              status := ImageLoaded,
              compressedImageUrl := None,
              stats := None\<rparr>)"

definition handleFileChange :: "Browser \<Rightarrow> File list \<Rightarrow> App \<Rightarrow> App" where
  "handleFileChange env files st =
     (case files of [] \<Rightarrow> st | file # _ \<Rightarrow> handleImageSelect env file st)"

definition handleDrop :: "Browser \<Rightarrow> File list \<Rightarrow> bool \<times> App \<Rightarrow> bool \<times> App" where
  "handleDrop env files u =
     (False, case files of [] \<Rightarrow> snd u | file # _ \<Rightarrow> handleImageSelect env file (snd u))"

section \<open>Compressing\<close>

text \<open>
  \<^verbatim>\<open>handleCompress\<close> (lines 97 to 143). The handler returns at once when there is no
  URL (\<open>null\<close> or the empty string) or no file. Otherwise it sets the status, waits on a
  timer of 1500 ms and assigns the URL to a new image. The two callbacks are functions
  of their own, as in the source; they see the file and the URL the handler was created
  with. \<open>handleCompress\<close> is the run with no other event in between.
\<close>

definition head :: string where
  "head = ''data:image/jpeg;base64,''"

definition onload :: "Browser \<Rightarrow> File \<Rightarrow> string \<Rightarrow> nat \<times> nat \<Rightarrow> App \<Rightarrow> App \<times> effect list" where
  "onload env file url wh st =
     (if \<not> context2d env
      then (st\<lparr>error := Some ''Could not process image.'', status := ImageLoaded\<rparr>,
            [CreateCanvas (fst wh) (snd wh), GetContext ''2d''])
      else
        let canvas = \<lparr>width = fst wh, height = snd wh, drawn = [(url, 0, 0)]\<rparr>;
            compressedDataUrl = toDataURL env canvas ''image/jpeg'' (7 / 10);
            size = Math_round
              (js_div
                (js_mul
                  (js_sub (Num (real (length compressedDataUrl))) (Num (real (length head))))
                  (Num 3))
                (Num 4));
            p = js_add (Num 35) (js_mul (Num (random env 0)) (Num 5));
            m = js_add (Num 5) (js_mul (Num (random env 1)) (Num 5))
        in (st\<lparr>compressedImageUrl := Some compressedDataUrl,
                stats := Some
                  \<lparr>originalSize = Num (real (fsize file)),
                   compressedSize = size,
                   reductionPercentage =
                     js_mul (js_sub (Num 1) (js_div size (Num (real (fsize file))))) (Num 100),
                   psnr = p,
                   mse = m\<rparr>,
                status := Done\<rparr>,
            [CreateCanvas (fst wh) (snd wh), GetContext ''2d'', DrawImage url 0 0,
             ToDataURL ''image/jpeg'' (7 / 10), MathRandom, MathRandom]))"

definition onerror :: "App \<Rightarrow> App" where
  "onerror st = st\<lparr>error := Some ''Could not load image for processing.'', status := ImageLoaded\<rparr>"

definition handleCompress :: "Browser \<Rightarrow> App \<Rightarrow> App \<times> effect list" where
  "handleCompress env st =
     (case (originalImageUrl st, originalFile st) of
        (Some url, Some file) \<Rightarrow>
          if url = [] then (st, [])
          else
            let st1 = st\<lparr>status := Compressing\<rparr> in
            (case decode env url of
               None \<Rightarrow> (onerror st1, [SetTimeout 1500, ImageSrc url])
             | Some wh \<Rightarrow>
                 let (st2, es) = onload env file url wh st1
                 in (st2, [SetTimeout 1500, ImageSrc url] @ es))
      | _ \<Rightarrow> (st, []))"

section \<open>Downloading and clearing\<close>

text \<open>
  \<^verbatim>\<open>handleDownload\<close> (lines 145 to 153) clicks a link made for the compressed image; the
  model returns the link's two attributes, or \<open>None\<close> when the handler returns before
  making one. \<open>split\<close> is \<^verbatim>\<open>String.prototype.split\<close> at a separator of one character; its
  element 0 is looked up as the source does, and \<^verbatim>\<open>||\<close> replaces a missing or empty
  result.
\<close>

fun split :: "char \<Rightarrow> string \<Rightarrow> string list" where
  "split c [] = [[]]"
| "split c (x # xs) =
     (if x = c then [] # split c xs
      else (case split c xs of [] \<Rightarrow> [[x]] | s # ss \<Rightarrow> (x # s) # ss))"




text \<open>\<^verbatim>\<open>handleClear\<close> (lines 155 to 164) revokes the two URLs that are set and resets.\<close>

definition revoke :: "string option \<Rightarrow> effect list" where
  "revoke uo = (case uo of None \<Rightarrow> [] | Some url \<Rightarrow> if url = [] then [] else [RevokeObjectURL url])"

definition handleClear :: "App \<Rightarrow> App \<times> effect list" where
  "handleClear st =
     (st\<lparr>status := Idle, originalFile := None, originalImageUrl := None,
         compressedImageUrl := None, stats := None, error := None\<rparr>,
      revoke (originalImageUrl st) @ revoke (compressedImageUrl st))"

section \<open>Formatting a byte count\<close>





section \<open>Example inputs\<close>

text \<open>
  Concrete files, a state and a browser, used where a theorem is applied to an input. The
  browser \<open>browser r\<close> decodes every URL to an image of 4 by 3 pixels, gives a data URL of
  1000 characters after \<open>head\<close> for every canvas, and returns \<open>r\<close> from every call of
  \<^verbatim>\<open>Math.random()\<close>. \<open>below_one\<close> is the double \<open>1 - 2^-52\<close>, just below 1.
\<close>

definition photo :: File where
  "photo = \<lparr>name = ''photo.png'', ftype = ''image/png'', fsize = 1000\<rparr>"

definition memo :: File where
  "memo = \<lparr>name = ''memo.txt'', ftype = ''text/plain'', fsize = 12\<rparr>"

definition animation :: File where
  "animation = \<lparr>name = ''animation.gif'', ftype = ''image/gif'', fsize = 2048\<rparr>"

definition below_one :: real where
  "below_one = 1 - 1 / 2 ^ 52"

definition browser :: "real \<Rightarrow> Browser" where
  "browser r =
     \<lparr>createObjectURL = (\<lambda>file. ''blob:'' @ name file),
      decode = (\<lambda>url. Some (4, 3)),
      context2d = True,
      toDataURL = (\<lambda>canvas mime quality. head @ replicate 1000 CHR ''A''),
      random = (\<lambda>n. r)\<rparr>"

definition loaded :: "File \<Rightarrow> App" where
  "loaded file =
     \<lparr>status = ImageLoaded, originalFile = Some file,
      originalImageUrl = Some (''blob:'' @ name file),
      compressedImageUrl = None, stats = None, error = None\<rparr>"

definition finished :: "File \<Rightarrow> App" where
  "finished file =
     \<lparr>status = Done, originalFile = Some file,
      originalImageUrl = Some (''blob:'' @ name file),
      compressedImageUrl = Some (head @ ''AAAA''), stats = None, error = None\<rparr>"

section \<open>Rounding: properties\<close>

text \<open>
  Rounding to an integer never crosses an integer, and a value within a half of an
  integer rounds to it; a tie below an even integer rounds up to it.
\<close>

lemma round_ties_even_le: "y \<le> of_int n \<Longrightarrow> round_ties_even y \<le> n"
  unfolding round_ties_even_def Let_def
  by (auto split: if_splits) linarith+

lemma round_ties_even_ge: "of_int n \<le> y \<Longrightarrow> n \<le> round_ties_even y"
  unfolding round_ties_even_def Let_def
  by (auto split: if_splits) linarith+

lemma round_ties_even_near:
  assumes "\<bar>y - of_int n\<bar> < 1 / 2"
  shows "round_ties_even y = n"
proof (cases "of_int n \<le> y")
  case True
  with assms have "\<lfloor>y\<rfloor> = n" by (intro floor_unique) linarith+
  with assms True show ?thesis by (simp add: round_ties_even_def)
next
  case False
  with assms have "\<lfloor>y\<rfloor> = n - 1" by (intro floor_unique) (simp, linarith+)
  with assms False show ?thesis by (simp add: round_ties_even_def)
qed

lemma round_ties_even_tie_below:
  assumes "even n"
  shows "round_ties_even (of_int n - 1 / 2) = n"
proof -
  have "\<lfloor>of_int n - 1 / 2 :: real\<rfloor> = n - 1" by (intro floor_unique) simp_all
  with assms show ?thesis by (simp add: round_ties_even_def)
qed

lemma ulp_pos: "0 < ulp x"
  by (simp add: ulp_def)

lemma floor_log2_less:
  assumes "x \<noteq> 0" and "\<bar>x\<bar> < 2 powi k"
  shows "\<lfloor>log 2 \<bar>x\<bar>\<rfloor> < k"
proof -
  from assms have "\<bar>x\<bar> < 2 powr real_of_int k" by (simp add: powr_real_of_int')
  with assms(1) have "log 2 \<bar>x\<bar> < real_of_int k" by (simp add: log_less_iff)
  then show ?thesis by (simp add: floor_less_iff)
qed

lemma exponent_eq:
  assumes "2 powi e \<le> \<bar>x\<bar>" and "\<bar>x\<bar> < 2 powi (e + 1)" and "- 1022 \<le> e"
  shows "exponent x = e"
proof -
  have "0 < (2::real) powi e" by simp
  with assms(1) have pos: "0 < \<bar>x\<bar>" by linarith
  have a: "(2::real) powr real_of_int e = 2 powi e"
    by (rule powr_real_of_int') simp_all
  have b: "(2::real) powr real_of_int (e + 1) = 2 powi (e + 1)"
    by (rule powr_real_of_int') simp_all
  from pos assms(1,2) have "\<lfloor>log 2 \<bar>x\<bar>\<rfloor> = e"
    using floor_log_eq_powr_iff [of "\<bar>x\<bar>" 2 e] a b by simp
  with assms(3) show ?thesis by (simp add: exponent_def)
qed

lemma exponent_le:
  assumes "x \<noteq> 0" and "\<bar>x\<bar> < 2 powi (j + 53)" and "- 1074 \<le> j"
  shows "exponent x - 52 \<le> j"
  using floor_log2_less [OF assms(1,2)] assms(3) by (simp add: exponent_def)

lemma grid_multiple:
  assumes "q \<le> j"
  shows "of_int m * 2 powi j = of_int (m * 2 ^ nat (j - q)) * ((2::real) powi q)"
proof -
  have "(2::real) powi j = 2 powi ((j - q) + q)" by simp
  also have "\<dots> = 2 powi (j - q) * 2 powi q"
    by (rule power_int_add) simp
  also have "(2::real) powi (j - q) = 2 ^ nat (j - q)"
    using assms by (simp add: power_int_def)
  finally show ?thesis by simp
qed

lemma round_double_lower:
  assumes "\<bar>x\<bar> < 2 powi (j + 53)" and "- 1074 \<le> j" and "of_int m * 2 powi j \<le> x"
  shows "of_int m * 2 powi j \<le> round_double x"
proof (cases "x = 0")
  case True
  with assms(3) show ?thesis by (simp add: round_double_def)
next
  case False
  define M where "M = m * 2 ^ nat (j - (exponent x - 52))"
  from exponent_le [OF False assms(1,2)]
  have g: "of_int m * 2 powi j = of_int M * ulp x"
    unfolding M_def ulp_def by (rule grid_multiple)
  with assms(3) have "of_int M * ulp x \<le> x" by simp
  then have "of_int M \<le> x / ulp x" using ulp_pos [of x] by (simp add: pos_le_divide_eq)
  then have "M \<le> round_ties_even (x / ulp x)" by (rule round_ties_even_ge)
  then have "of_int M * ulp x \<le> of_int (round_ties_even (x / ulp x)) * ulp x"
    using ulp_pos [of x] by simp
  with g False show ?thesis by (simp add: round_double_def)
qed

lemma round_double_upper:
  assumes "\<bar>x\<bar> < 2 powi (j + 53)" and "- 1074 \<le> j" and "x \<le> of_int m * 2 powi j"
  shows "round_double x \<le> of_int m * 2 powi j"
proof (cases "x = 0")
  case True
  with assms(3) show ?thesis by (simp add: round_double_def)
next
  case False
  define M where "M = m * 2 ^ nat (j - (exponent x - 52))"
  from exponent_le [OF False assms(1,2)]
  have g: "of_int m * 2 powi j = of_int M * ulp x"
    unfolding M_def ulp_def by (rule grid_multiple)
  with assms(3) have "x \<le> of_int M * ulp x" by simp
  then have "x / ulp x \<le> of_int M" using ulp_pos [of x] by (simp add: pos_divide_le_eq)
  then have "round_ties_even (x / ulp x) \<le> M" by (rule round_ties_even_le)
  then have "of_int (round_ties_even (x / ulp x)) * ulp x \<le> of_int M * ulp x"
    using ulp_pos [of x] by simp
  with g False show ?thesis by (simp add: round_double_def)
qed

text \<open>
  Rounding to a double never crosses a multiple of \<open>2^j\<close> that is a double, so it stays
  between two integers below \<open>2^53\<close> in size, and it leaves integers and quarters of that
  size as they are.
\<close>

lemma fl_between:
  assumes "of_int a \<le> x" and "x \<le> of_int b" and "- (2 ^ 53) < a" and "b < 2 ^ 53"
  shows "\<exists>y. fl x = Num y \<and> of_int a \<le> y \<and> y \<le> of_int b"
proof -
  from assms have "real_of_int (- (2 ^ 53)) < x" "x < real_of_int (2 ^ 53)"
    by linarith+
  then have small: "\<bar>x\<bar> < 2 powi (0 + 53)" by simp
  from round_double_lower [OF small, of a] assms(1)
  have lo: "of_int a \<le> round_double x" by simp
  from round_double_upper [OF small, of b] assms(2)
  have hi: "round_double x \<le> of_int b" by simp
  from lo assms(3) have "real_of_int (- (2 ^ 53)) < round_double x" by linarith
  moreover from hi assms(4) have "round_double x < real_of_int (2 ^ 53)" by linarith
  ultimately have "\<not> 2 ^ 1024 \<le> round_double x" "\<not> round_double x \<le> - (2 ^ 1024)"
    by simp_all
  then have "fl x = Num (round_double x)" by (simp add: fl_def)
  with lo hi show ?thesis by simp
qed






text \<open>
  The result of rounding is computed from the binade of the argument. The two metrics stay
  in closed intervals; at \<open>below_one\<close> the upper ends are reached.
\<close>

lemma round_double_eval:
  assumes "2 powi e \<le> \<bar>x\<bar>" and "\<bar>x\<bar> < 2 powi (e + 1)" and "- 1022 \<le> e"
    and "round_ties_even (x / 2 powi (e - 52)) = n"
  shows "round_double x = of_int n * 2 powi (e - 52)"
proof -
  have p: "0 < (2::real) powi e" by simp
  have "x \<noteq> 0"
  proof
    assume "x = 0"
    with assms(1) have "(2::real) powi e \<le> 0" by simp
    with p show False by linarith
  qed
  with exponent_eq [OF assms(1-3)] assms(4) show ?thesis
    by (simp add: round_double_def ulp_def)
qed

lemma fl_metrics_range:
  assumes "0 \<le> r" and "r < 1"
  shows "\<exists>p. js_add (Num 35) (js_mul (Num r) (Num 5)) = Num p \<and> 35 \<le> p \<and> p \<le> 40"
    and "\<exists>m. js_add (Num 5) (js_mul (Num r) (Num 5)) = Num m \<and> 5 \<le> m \<and> m \<le> 10"
proof -
  from assms have "real_of_int 0 \<le> r * 5" "r * 5 \<le> real_of_int 5" by simp_all
  from fl_between [OF this] obtain y where y: "fl (r * 5) = Num y" "0 \<le> y" "y \<le> 5"
    by auto
  from y(2,3) have "real_of_int 35 \<le> 35 + y" "35 + y \<le> real_of_int 40" by simp_all
  from fl_between [OF this] obtain p where "fl (35 + y) = Num p" "35 \<le> p" "p \<le> 40"
    by auto
  with y(1) show "\<exists>p. js_add (Num 35) (js_mul (Num r) (Num 5)) = Num p \<and> 35 \<le> p \<and> p \<le> 40"
    by simp
  from y(2,3) have "real_of_int 5 \<le> 5 + y" "5 + y \<le> real_of_int 10" by simp_all
  from fl_between [OF this] obtain m where "fl (5 + y) = Num m" "5 \<le> m" "m \<le> 10"
    by auto
  with y(1) show "\<exists>m. js_add (Num 5) (js_mul (Num r) (Num 5)) = Num m \<and> 5 \<le> m \<and> m \<le> 10"
    by simp
qed

lemma fl_finite:
  assumes "round_double x = y" and "\<bar>y\<bar> < 2 ^ 53"
  shows "fl x = Num y"
proof -
  have "(2::real) ^ 53 < 2 ^ 1024" by (rule power_strict_increasing) simp_all
  with assms(2) have "\<not> 2 ^ 1024 \<le> y" "\<not> y \<le> - (2 ^ 1024)" by linarith+
  with assms(1) show ?thesis by (simp add: fl_def)
qed

lemma mul_below_one: "fl (below_one * 5) = Num (5 - 1 / 2 ^ 50)"
proof -
  have "round_ties_even (below_one * 5 / 2 powi (2 - 52)) = 5 * 2 ^ 50 - 1"
    by (rule round_ties_even_near) (simp add: below_one_def)
  then have "round_double (below_one * 5) = of_int (5 * 2 ^ 50 - 1) * 2 powi (2 - 52)"
    by (intro round_double_eval) (simp_all add: below_one_def)
  then have "round_double (below_one * 5) = 5 - 1 / 2 ^ 50" by simp
  then show ?thesis by (rule fl_finite) simp
qed

lemma psnr_below_one: "fl (35 + (5 - 1 / 2 ^ 50)) = Num 40"
proof -
  have "round_ties_even ((35 + (5 - 1 / 2 ^ 50)) / 2 powi (5 - 52)) = 40 * 2 ^ 47"
    by (rule round_ties_even_near) simp
  then have "round_double (35 + (5 - 1 / 2 ^ 50)) = of_int (40 * 2 ^ 47) * 2 powi (5 - 52)"
    by (intro round_double_eval) simp_all
  then have "round_double (35 + (5 - 1 / 2 ^ 50)) = 40" by simp
  then show ?thesis by (rule fl_finite) simp
qed

lemma mse_below_one: "fl (5 + (5 - 1 / 2 ^ 50)) = Num 10"
proof -
  have "(5 + (5 - 1 / 2 ^ 50)) / 2 powi (3 - 52) = real_of_int (10 * 2 ^ 49) - 1 / 2"
    by simp
  moreover have "round_ties_even (real_of_int (10 * 2 ^ 49) - 1 / 2) = 10 * 2 ^ 49"
    by (rule round_ties_even_tie_below) simp
  ultimately have "round_ties_even ((5 + (5 - 1 / 2 ^ 50)) / 2 powi (3 - 52)) = 10 * 2 ^ 49"
    by simp
  then have "round_double (5 + (5 - 1 / 2 ^ 50)) = of_int (10 * 2 ^ 49) * 2 powi (3 - 52)"
    by (intro round_double_eval) simp_all
  then have "round_double (5 + (5 - 1 / 2 ^ 50)) = 10" by simp
  then show ?thesis by (rule fl_finite) simp
qed

section \<open>Compressing: the two outcomes of loading the image\<close>

lemma handleCompress_onload:
  assumes "originalImageUrl st = Some url" and "url \<noteq> []"
    and "originalFile st = Some file"
    and "decode env url = Some wh"
  shows "handleCompress env st =
           (fst (onload env file url wh (st\<lparr>status := Compressing\<rparr>)),
            [SetTimeout 1500, ImageSrc url]
              @ snd (onload env file url wh (st\<lparr>status := Compressing\<rparr>)))"
  using assms by (simp add: handleCompress_def Let_def split_beta)

lemma handleCompress_onerror:
  assumes "originalImageUrl st = Some url" and "url \<noteq> []"
    and "originalFile st = Some file"
    and "decode env url = None"
  shows "handleCompress env st =
           (onerror (st\<lparr>status := Compressing\<rparr>), [SetTimeout 1500, ImageSrc url])"
  using assms by (simp add: handleCompress_def Let_def)

section \<open>Selecting a file: properties\<close>

text \<open>
  C3. A file whose MIME type does not start with \<open>image/\<close> sets the error string and
  nothing else: the status, the file, the two URLs and the statistics keep their values.
\<close>

theorem handleImageSelect_rejects:
  assumes "\<not> prefix ''image/'' (ftype file)"
  shows "handleImageSelect env file st =
           st\<lparr>error := Some ''Please select a valid image file (JPEG or PNG).''\<rparr>
         \<and> error (handleImageSelect env file st) \<noteq> None
         \<and> status (handleImageSelect env file st) = status st
         \<and> originalFile (handleImageSelect env file st) = originalFile st
         \<and> originalImageUrl (handleImageSelect env file st) = originalImageUrl st
         \<and> compressedImageUrl (handleImageSelect env file st) = compressedImageUrl st
         \<and> stats (handleImageSelect env file st) = stats st"
  using assms by (simp add: handleImageSelect_def)

theorem handleImageSelect_rejects_witness:
  "handleImageSelect (browser 0) memo (finished photo) =
     (finished photo)\<lparr>error := Some ''Please select a valid image file (JPEG or PNG).''\<rparr>
   \<and> status (handleImageSelect (browser 0) memo (finished photo)) = Done
   \<and> stats (handleImageSelect (browser 0) memo (finished photo)) = None"
  using handleImageSelect_rejects [of memo "browser 0" "finished photo"]
  by (simp add: memo_def finished_def)

text \<open>
  C6. A file whose MIME type starts with \<open>image/\<close> is recorded with the object URL made
  for it; the status becomes \<open>image-loaded\<close>, and the error, the compressed URL and the
  statistics are reset to \<open>null\<close>.
\<close>

theorem handleImageSelect_accepts:
  assumes "prefix ''image/'' (ftype file)"
  shows "handleImageSelect env file st =
           \<lparr>status = ImageLoaded, originalFile = Some file,
            originalImageUrl = Some (createObjectURL env file),
            compressedImageUrl = None, stats = None, error = None\<rparr>"
  using assms by (simp add: handleImageSelect_def)

theorem handleImageSelect_accepts_witness:
  "handleImageSelect (browser 0) photo
     ((finished animation)\<lparr>error := Some ''Could not process image.''\<rparr>) =
   loaded photo"
  using handleImageSelect_accepts [of photo "browser 0"
      "(finished animation)\<lparr>error := Some ''Could not process image.''\<rparr>"]
  by (simp add: photo_def browser_def loaded_def)

text \<open>
  C8. Acceptance is not restricted to JPEG and PNG files. A GIF dropped on the uploader
  is accepted: the handler tests the prefix \<open>image/\<close> only, although its own error
  message and the file picker name JPEG and PNG.
\<close>

theorem handleDrop_accepts_gif:
  "ftype animation \<noteq> ''image/jpeg'' \<and> ftype animation \<noteq> ''image/png''
   \<and> handleDrop (browser 0) [animation] (True, initial) = (False, loaded animation)
   \<and> status (loaded animation) = ImageLoaded \<and> error (loaded animation) = None"
  by (simp add: handleDrop_def handleImageSelect_def animation_def initial_def loaded_def
      browser_def)

section \<open>Clearing: properties\<close>

text \<open>
  C5. From every state, clearing gives the initial state: the status is \<open>idle\<close> and the
  file, the two URLs, the statistics and the error are \<open>null\<close>.
\<close>

theorem handleClear_resets:
  "fst (handleClear st) = initial
   \<and> fst (handleClear st) =
       \<lparr>status = Idle, originalFile = None, originalImageUrl = None,
        compressedImageUrl = None, stats = None, error = None\<rparr>"
  by (simp add: handleClear_def initial_def)

section \<open>Downloading: properties\<close>





section \<open>Compressing: properties\<close>



text \<open>
  C2. A run that completes makes these requests, in this order: a timer of 1500 ms, the
  load of the image, a new canvas of the image's width and height, its 2D context, the
  image drawn at the origin, the canvas encoded as JPEG at quality 0.7, and two random
  numbers. The compressed URL is the encoding of that canvas; \<open>psnr\<close> and \<open>mse\<close> are computed
  from the two random numbers alone.
\<close>

theorem handleCompress_steps:
  assumes "originalImageUrl st = Some url" and "url \<noteq> []"
    and "originalFile st = Some file"
    and "decode env url = Some wh" and "context2d env"
  shows "snd (handleCompress env st) =
           [SetTimeout 1500, ImageSrc url, CreateCanvas (fst wh) (snd wh), GetContext ''2d'',
            DrawImage url 0 0, ToDataURL ''image/jpeg'' (7 / 10), MathRandom, MathRandom]
         \<and> compressedImageUrl (fst (handleCompress env st)) =
             Some (toDataURL env \<lparr>width = fst wh, height = snd wh, drawn = [(url, 0, 0)]\<rparr>
                     ''image/jpeg'' (7 / 10))
         \<and> map_option psnr (stats (fst (handleCompress env st))) =
             Some (js_add (Num 35) (js_mul (Num (random env 0)) (Num 5)))
         \<and> map_option mse (stats (fst (handleCompress env st))) =
             Some (js_add (Num 5) (js_mul (Num (random env 1)) (Num 5)))"
  unfolding handleCompress_onload [OF assms(1-4)]
  using assms(5) by (simp add: onload_def Let_def)

theorem handleCompress_steps_witness:
  "snd (handleCompress (browser 0) (loaded photo)) =
     [SetTimeout 1500, ImageSrc ''blob:photo.png'', CreateCanvas 4 3, GetContext ''2d'',
      DrawImage ''blob:photo.png'' 0 0, ToDataURL ''image/jpeg'' (7 / 10), MathRandom, MathRandom]"
  using handleCompress_steps [of "loaded photo" "''blob:photo.png''" photo "browser 0" "(4, 3)"]
  by (simp add: loaded_def photo_def browser_def)

text \<open>
  C4. When the image fails to load or the canvas gives no context, the run sets one error
  string and the status \<open>image-loaded\<close>, and changes nothing else: the file, the two URLs
  and the statistics are those of before. The image is loaded once and the context is
  asked for at most once: nothing is retried.
\<close>

theorem handleCompress_failure:
  assumes "originalImageUrl st = Some url" and "url \<noteq> []"
    and "originalFile st = Some file"
    and "decode env url = None \<or> \<not> context2d env"
  shows "fst (handleCompress env st) =
           st\<lparr>status := ImageLoaded,
              error := Some (if decode env url = None
                             then ''Could not load image for processing.''
                             else ''Could not process image.'')\<rparr>
         \<and> snd (handleCompress env st) =
             [SetTimeout 1500, ImageSrc url]
               @ (case decode env url of
                    None \<Rightarrow> []
                  | Some wh \<Rightarrow> [CreateCanvas (fst wh) (snd wh), GetContext ''2d''])
         \<and> status (fst (handleCompress env st)) = ImageLoaded
         \<and> error (fst (handleCompress env st)) \<noteq> None
         \<and> originalFile (fst (handleCompress env st)) = originalFile st
         \<and> originalImageUrl (fst (handleCompress env st)) = originalImageUrl st
         \<and> compressedImageUrl (fst (handleCompress env st)) = compressedImageUrl st
         \<and> stats (fst (handleCompress env st)) = stats st"
proof (cases "decode env url")
  case None
  show ?thesis
    unfolding handleCompress_onerror [OF assms(1-3) None]
    using None by (simp add: onerror_def)
next
  case (Some wh)
  with assms(4) have "\<not> context2d env" by simp
  then show ?thesis
    unfolding handleCompress_onload [OF assms(1-3) Some]
    using Some by (simp add: onload_def)
qed

theorem handleCompress_failure_witness:
  "fst (handleCompress ((browser 0)\<lparr>context2d := False\<rparr>) (loaded photo)) =
     (loaded photo)\<lparr>error := Some ''Could not process image.''\<rparr>
   \<and> fst (handleCompress ((browser 0)\<lparr>decode := (\<lambda>url. None)\<rparr>) (loaded photo)) =
     (loaded photo)\<lparr>error := Some ''Could not load image for processing.''\<rparr>"
  using handleCompress_failure
      [of "loaded photo" "''blob:photo.png''" photo "(browser 0)\<lparr>context2d := False\<rparr>"]
    handleCompress_failure
      [of "loaded photo" "''blob:photo.png''" photo "(browser 0)\<lparr>decode := (\<lambda>url. None)\<rparr>"]
  by (simp add: loaded_def photo_def browser_def)

text \<open>
  C9, as amended. For every value in \<open>[0, 1)\<close> of the two random numbers, a run that
  completes gives \<open>psnr\<close> in the closed interval \<open>[35, 40]\<close> and \<open>mse\<close> in \<open>[5, 10]\<close>.
\<close>

theorem handleCompress_metrics:
  assumes "originalImageUrl st = Some url" and "url \<noteq> []"
    and "originalFile st = Some file"
    and "decode env url = Some wh" and "context2d env"
    and "0 \<le> random env 0" and "random env 0 < 1"
    and "0 \<le> random env 1" and "random env 1 < 1"
  shows "\<exists>s p m. status (fst (handleCompress env st)) = Done
           \<and> stats (fst (handleCompress env st)) = Some s
           \<and> psnr s = Num p \<and> 35 \<le> p \<and> p \<le> 40
           \<and> mse s = Num m \<and> 5 \<le> m \<and> m \<le> 10"
proof -
  from fl_metrics_range(1) [OF assms(6,7)] obtain p
    where p: "js_add (Num 35) (js_mul (Num (random env 0)) (Num 5)) = Num p" "35 \<le> p" "p \<le> 40"
    by blast
  from fl_metrics_range(2) [OF assms(8,9)] obtain m
    where m: "js_add (Num 5) (js_mul (Num (random env 1)) (Num 5)) = Num m" "5 \<le> m" "m \<le> 10"
    by blast
  have "status (fst (handleCompress env st)) = Done
      \<and> map_option psnr (stats (fst (handleCompress env st))) = Some (Num p)
      \<and> map_option mse (stats (fst (handleCompress env st))) = Some (Num m)"
    unfolding handleCompress_onload [OF assms(1-4)]
    using assms(5) p(1) m(1) by (simp add: onload_def Let_def del: js_add.simps js_mul.simps)
  with p(2,3) m(2,3) show ?thesis by auto
qed

theorem handleCompress_metrics_witness:
  "\<exists>s p m. status (fst (handleCompress (browser (1 / 2)) (loaded photo))) = Done
           \<and> stats (fst (handleCompress (browser (1 / 2)) (loaded photo))) = Some s
           \<and> psnr s = Num p \<and> 35 \<le> p \<and> p \<le> 40
           \<and> mse s = Num m \<and> 5 \<le> m \<and> m \<le> 10"
  by (rule handleCompress_metrics [where url = "''blob:photo.png''" and wh = "(4, 3)"])
    (simp_all add: loaded_def photo_def browser_def)

text \<open>
  C9 with the intervals open at 40 and at 10 fails. When \<^verbatim>\<open>Math.random()\<close> returns
  \<open>1 - 2^-52\<close>, the product with 5 rounds to \<open>5 - 2^-50\<close> and both sums round up: \<open>psnr\<close> is
  40 and \<open>mse\<close> is 10.
\<close>

theorem handleCompress_metrics_counterexample:
  "0 \<le> below_one \<and> below_one < 1 \<and> fl below_one = Num below_one
   \<and> map_option psnr (stats (fst (handleCompress (browser below_one) (loaded photo)))) =
       Some (Num 40)
   \<and> map_option mse (stats (fst (handleCompress (browser below_one) (loaded photo)))) =
       Some (Num 10)"
proof -
  have r: "0 \<le> below_one" "below_one < 1" by (simp_all add: below_one_def)
  have "round_ties_even (below_one / 2 powi (- 1 - 52)) = 2 ^ 53 - 2"
    by (rule round_ties_even_near) (simp add: below_one_def)
  then have "round_double below_one = of_int (2 ^ 53 - 2) * 2 powi (- 1 - 52)"
    by (intro round_double_eval) (simp_all add: below_one_def)
  then have "round_double below_one = below_one" by (simp add: below_one_def)
  then have d: "fl below_one = Num below_one"
    by (rule fl_finite) (simp add: below_one_def)
  have 1: "js_mul (Num below_one) (Num 5) = Num (5 - 1 / 2 ^ 50)"
    by (simp only: js_mul.simps mul_below_one)
  have 2: "js_add (Num 35) (Num (5 - 1 / 2 ^ 50)) = Num 40"
    by (simp only: js_add.simps psnr_below_one)
  have 3: "js_add (Num 5) (Num (5 - 1 / 2 ^ 50)) = Num 10"
    by (simp only: js_add.simps mse_below_one)
  have "map_option psnr (stats (fst (handleCompress (browser below_one) (loaded photo)))) =
          Some (js_add (Num 35) (js_mul (Num below_one) (Num 5)))
      \<and> map_option mse (stats (fst (handleCompress (browser below_one) (loaded photo)))) =
          Some (js_add (Num 5) (js_mul (Num below_one) (Num 5)))"
    by (simp add: handleCompress_def onload_def loaded_def photo_def browser_def Let_def
        del: js_add.simps js_mul.simps)
  then have "map_option psnr (stats (fst (handleCompress (browser below_one) (loaded photo)))) =
          Some (Num 40)
      \<and> map_option mse (stats (fst (handleCompress (browser below_one) (loaded photo)))) =
          Some (Num 10)"
    unfolding 1 2 3 .
  with r d show ?thesis by simp
qed

section \<open>Formatting a byte count: properties\<close>





end
